theory Spec2Isabelle
  imports Main "HOL-Library.AList"
begin

section \<open>JSON values and JavaScript coercions\<close>

text \<open>
  The records of the broker are JSON documents. A JavaScript property that is
  \<open>undefined\<close> is \<open>None\<close> of type \<open>json option\<close>; numbers are the integers the
  programs write (status codes, timestamps).
\<close>

datatype json =
    JNull
  | JBool bool
  | JNum int
  | JStr string
  | JArr "json list"
  | JObj "(string \<times> json) list"

text \<open>
  What a file holds: \<open>Json j\<close> is the text \<open>JSON.stringify(j, null, 2)\<close>, which
  \<open>JSON.parse\<close> reads back as \<open>j\<close>; \<open>Text s\<close> is any other text (the programs write
  only the empty string and the process id, into markers they never parse).
\<close>

datatype fdata = Text string | Json json

text \<open>
  Exceptions as values: the error codes of the \<open>fs\<close> module that the programs
  distinguish, the two built-in errors their expressions can raise, and
  \<open>Error msg\<close> for \<open>new Error(msg)\<close> and for the transport error of the HTTP client.
  \<open>message\<close> is \<open>error.message\<close>: the text given to \<open>Error\<close>, and for the other
  exceptions a fixed text in place of the one the runtime composes (which
  names the path or the offending token).
\<close>

datatype exn = ENOENT | EEXIST | EACCES | SyntaxError | TypeError | Error string

fun message :: "exn \<Rightarrow> string" where
  "message ENOENT = ''ENOENT: no such file or directory''"
| "message EEXIST = ''EEXIST: file already exists''"
| "message EACCES = ''EACCES: permission denied''"
| "message SyntaxError = ''Unexpected token in JSON''"
| "message TypeError = ''Cannot read properties of null''"
| "message (Error m) = m"

fun JSON_parse :: "fdata \<Rightarrow> exn + json" where
  "JSON_parse (Json j) = Inr j"
| "JSON_parse (Text s) = Inl SyntaxError"


text \<open>\<open>x.k\<close>: a TypeError on \<open>null\<close>, \<open>undefined\<close> on a value without the property.\<close>

fun get_prop :: "json \<Rightarrow> string \<Rightarrow> exn + json option" where
  "get_prop JNull k = Inl TypeError"
| "get_prop (JObj kvs) k = Inr (map_of kvs k)"
| "get_prop j k = Inr None"

text \<open>
  \<open>x.k = v\<close> followed by \<open>JSON.stringify(x)\<close>: an object keeps its key order, a
  primitive or an array drops the assignment, \<open>null\<close> raises.
\<close>

fun set_prop :: "json \<Rightarrow> string \<Rightarrow> json \<Rightarrow> exn + json" where
  "set_prop JNull k v = Inl TypeError"
| "set_prop (JObj kvs) k v = Inr (JObj (AList.update k v kvs))"
| "set_prop j k v = Inr j"


definition digit_of :: "nat \<Rightarrow> char" where
  "digit_of n = ''0123456789'' ! n"

fun show_nat :: "nat \<Rightarrow> string" where
  "show_nat n = (if n < 10 then [digit_of n] else show_nat (n div 10) @ [digit_of (n mod 10)])"

definition show_int :: "int \<Rightarrow> string" where
  "show_int i = (if i < 0 then CHR ''-'' # show_nat (nat (- i)) else show_nat (nat i))"

fun intercalate :: "string \<Rightarrow> string list \<Rightarrow> string" where
  "intercalate sep [] = []"
| "intercalate sep [x] = x"
| "intercalate sep (x # y # ys) = x @ sep @ intercalate sep (y # ys)"

text \<open>The string a template literal \<open>`${x}`\<close> puts in place of \<open>x\<close>.\<close>

fun js_string :: "json \<Rightarrow> string"
  and js_element :: "json \<Rightarrow> string" where
  "js_string JNull = ''null''"
| "js_string (JBool b) = (if b then ''true'' else ''false'')"
| "js_string (JNum n) = show_int n"
| "js_string (JStr s) = s"
| "js_string (JArr xs) = intercalate '','' (map js_element xs)"
| "js_string (JObj kvs) = ''[object Object]''"
| "js_element JNull = []"
| "js_element (JBool b) = js_string (JBool b)"
| "js_element (JNum n) = js_string (JNum n)"
| "js_element (JStr s) = js_string (JStr s)"
| "js_element (JArr xs) = js_string (JArr xs)"
| "js_element (JObj kvs) = js_string (JObj kvs)"

fun template :: "json option \<Rightarrow> string" where
  "template None = ''undefined''"
| "template (Some j) = js_string j"

text \<open>An object literal: a property whose value is \<open>undefined\<close> is not serialised.\<close>

fun object :: "(string \<times> json option) list \<Rightarrow> json" where
  "object kvs = JObj (List.map_filter (\<lambda>(k, v). map_option (Pair k) v) kvs)"

text \<open>\<open>s.endsWith(suffix)\<close> and \<open>s.replace(pat, rep)\<close> (first occurrence only).\<close>

definition endsWith :: "string \<Rightarrow> string \<Rightarrow> bool" where
  "endsWith s suffix = (length suffix \<le> length s \<and> drop (length s - length suffix) s = suffix)"

fun replace :: "string \<Rightarrow> string \<Rightarrow> string \<Rightarrow> string" where
  "replace [] pat rep = (if pat = [] then rep else [])"
| "replace (c # cs) pat rep =
     (if take (length pat) (c # cs) = pat then rep @ drop (length pat) (c # cs)
      else c # replace cs pat rep)"

section \<open>The shared folder\<close>

text \<open>
  The two directories of the protocol, and anything else under the shared root.
  A path is a directory and a file name; \<open>path.join(DIR, name)\<close> is the pair.
\<close>

datatype dir = REQUESTS_DIR | RESPONSES_DIR | OTHER_DIR string

type_synonym path = "dir \<times> string"

text \<open>
  The state both roles share: the directories that exist, the files with their
  contents (in listing order), the paths on which the operating system refuses a
  write (a read-only file, a file held open elsewhere), and the wall clock in
  milliseconds that \<open>Date.now()\<close> reads.
\<close>

record store =
  dirs :: "dir list"
  files :: "(path \<times> fdata) list"
  denied :: "path list"
  clock :: nat

definition fileExists :: "store \<Rightarrow> path \<Rightarrow> bool" where
  "fileExists s p = (map_of (files s) p \<noteq> None)"

definition suffixed :: "path \<Rightarrow> string \<Rightarrow> path" where
  "suffixed p ext = (fst p, snd p @ ext)"

subsection \<open>The \<open>fs.promises\<close> operations the programs call\<close>

definition fs_writeFile :: "path \<Rightarrow> fdata \<Rightarrow> store \<Rightarrow> exn + store" where
  "fs_writeFile p d s =
     (if fst p \<notin> set (dirs s) then Inl ENOENT
      else if p \<in> set (denied s) then Inl EACCES
      else Inr (s\<lparr>files := AList.update p d (files s)\<rparr>))"

text \<open>With \<open>{ flag: 'wx' }\<close>: the create is exclusive and fails on an existing file.\<close>

definition fs_writeFile_wx :: "path \<Rightarrow> fdata \<Rightarrow> store \<Rightarrow> exn + store" where
  "fs_writeFile_wx p d s =
     (if fst p \<notin> set (dirs s) then Inl ENOENT
      else if fileExists s p then Inl EEXIST
      else if p \<in> set (denied s) then Inl EACCES
      else Inr (s\<lparr>files := AList.update p d (files s)\<rparr>))"

definition fs_readFile :: "path \<Rightarrow> store \<Rightarrow> exn + fdata" where
  "fs_readFile p s = (case map_of (files s) p of None \<Rightarrow> Inl ENOENT | Some d \<Rightarrow> Inr d)"

definition fs_unlink :: "path \<Rightarrow> store \<Rightarrow> exn + store" where
  "fs_unlink p s =
     (if fileExists s p then Inr (s\<lparr>files := AList.delete p (files s)\<rparr>) else Inl ENOENT)"

text \<open>\<open>fs.access(p).then(() => true).catch(() => false)\<close>\<close>

definition fs_access :: "path \<Rightarrow> store \<Rightarrow> bool" where
  "fs_access p s = fileExists s p"

definition fs_access_dir :: "dir \<Rightarrow> store \<Rightarrow> bool" where
  "fs_access_dir d s = (d \<in> set (dirs s))"

definition fs_readdir :: "dir \<Rightarrow> store \<Rightarrow> exn + string list" where
  "fs_readdir d s =
     (if d \<in> set (dirs s) then Inr (remdups (map (snd \<circ> fst) (filter (\<lambda>e. fst (fst e) = d) (files s))))
      else Inl ENOENT)"

text \<open>\<open>fs.mkdir(d, { recursive: true })\<close>: no error when the directory exists.\<close>

definition fs_mkdir :: "dir \<Rightarrow> store \<Rightarrow> store" where
  "fs_mkdir d s = s\<lparr>dirs := List.insert d (dirs s)\<rparr>"

text \<open>\<open>fs.rm(d, { recursive: true, force: true })\<close>: the directory and all it holds.\<close>

definition fs_rm :: "dir \<Rightarrow> store \<Rightarrow> store" where
  "fs_rm d s = s\<lparr>dirs := removeAll d (dirs s), files := filter (\<lambda>e. fst (fst e) \<noteq> d) (files s)\<rparr>"

text \<open>\<open>await new Promise(resolve => setTimeout(resolve, ms))\<close>\<close>

definition sleep :: "nat \<Rightarrow> store \<Rightarrow> store" where
  "sleep ms s = s\<lparr>clock := clock s + ms\<rparr>"

section \<open>The lock primitive\<close>

text \<open>
  \<open>lockFile\<close> and \<open>unlockFile\<close> of \<open>rdp-rest-proxy/proxy.js\<close> (the same text stands in
  \<open>local-rest-proxy/proxy.js\<close>): the marker is written with the default flag.
\<close>

definition lockFile :: "path \<Rightarrow> store \<Rightarrow> bool \<times> store" where
  "lockFile filePath s =
     (case fs_writeFile (suffixed filePath ''.lock'') (Text []) s of
        Inr s' \<Rightarrow> (True, s')
      | Inl error \<Rightarrow> (False, s))"

definition unlockFile :: "path \<Rightarrow> store \<Rightarrow> bool \<times> store" where
  "unlockFile filePath s =
     (case fs_unlink (suffixed filePath ''.lock'') s of
        Inr s' \<Rightarrow> (True, s')
      | Inl error \<Rightarrow> (False, s))"

text \<open>
  \<open>lockFile\<close> and \<open>unlockFile\<close> of the submitter that checks the completion marker:
  the marker holds the process id and is created with flag \<open>wx\<close>. In the handler of
  ENOENT the name \<open>lockFile\<close> is the function itself (the constant of that name is
  scoped to the \<open>try\<close> block), so \<open>path.dirname\<close> raises and the retry answers false.
\<close>

definition lockFile_wx :: "string \<Rightarrow> path \<Rightarrow> store \<Rightarrow> bool \<times> store" where
  "lockFile_wx pid filePath s =
     (let s1 = fs_mkdir (fst filePath) s in
      case fs_writeFile_wx (suffixed filePath ''.lock'') (Text pid) s1 of
        Inr s2 \<Rightarrow> (True, s2)
      | Inl error \<Rightarrow>
          (if error = EEXIST then (False, s1)
           else if error = ENOENT then (False, s1)
           else (False, s1)))"

definition unlockFile_wx :: "path \<Rightarrow> store \<Rightarrow> bool \<times> store" where
  "unlockFile_wx filePath s =
     (case fs_unlink (suffixed filePath ''.lock'') s of
        Inr s' \<Rightarrow> (True, s')
      | Inl error \<Rightarrow> (if error = ENOENT then (True, s) else (False, s)))"

section \<open>Start-up\<close>

text \<open>
  \<open>initializeDirs\<close>, the same in both roles. The two \<open>rm\<close> calls swallow their
  errors and \<open>mkdir\<close> does not fail here, so \<open>process.exit(1)\<close> is not reached.
\<close>

definition initializeDirs :: "store \<Rightarrow> store" where
  "initializeDirs s =
     fs_mkdir RESPONSES_DIR (fs_mkdir REQUESTS_DIR (fs_rm RESPONSES_DIR (fs_rm REQUESTS_DIR s)))"

section \<open>The worker: \<open>rdp-rest-proxy/proxy.js\<close>\<close>

definition TARGET_API :: string where
  "TARGET_API = ''http://127.0.0.1:8088''"

definition BATCH_SIZE :: nat where
  "BATCH_SIZE = 20"

definition MAX_CONCURRENT_REQUESTS :: int where
  "MAX_CONCURRENT_REQUESTS = 40"

definition MAX_RETRIES :: nat where
  "MAX_RETRIES = 3"

definition MAX_PROCESSED_FILES :: nat where
  "MAX_PROCESSED_FILES = 1000"

subsection \<open>The target call\<close>

text \<open>
  The options the worker passes to the HTTP client (method, url, headers, data)
  and what the client resolves with (status, headers, data). The target service
  is a parameter: attempt number \<open>k\<close> (from 0) of a request either resolves with a
  response, whatever its status code, or fails at transport level.
\<close>

datatype axios_config = Config "json option" string "json option" "json option"

datatype axios_response = Response int json json

type_synonym target = "nat \<Rightarrow> axios_config \<Rightarrow> exn + axios_response"

text \<open>A property of a value known not to be \<open>null\<close>.\<close>

definition field :: "json \<Rightarrow> string \<Rightarrow> json option" where
  "field j k = (case get_prop j k of Inr v \<Rightarrow> v | Inl e \<Rightarrow> None)"

definition config_of :: "json \<Rightarrow> axios_config" where
  "config_of requestData =
     Config (field requestData ''method'')
            (TARGET_API @ template (field requestData ''path''))
            (field requestData ''headers'')
            (field requestData ''body'')"

text \<open>
  The retry loop: \<open>while (retries < MAX_RETRIES && !response)\<close>. The result is the
  response (if any), the last error, the number of failed attempts and the delays
  slept between attempts, in order.
\<close>

function retry_loop ::
  "target \<Rightarrow> axios_config \<Rightarrow> nat \<Rightarrow> exn option \<Rightarrow> nat list
    \<Rightarrow> axios_response option \<times> exn option \<times> nat \<times> nat list" where
  "retry_loop t cfg retries lastError delays =
     (if retries < MAX_RETRIES then
        (case t retries cfg of
           Inr response \<Rightarrow> (Some response, lastError, retries, delays)
         | Inl error \<Rightarrow>
             retry_loop t cfg (retries + 1) (Some error)
               (if retries + 1 < MAX_RETRIES then delays @ [1000 * (retries + 1)] else delays))
      else (None, lastError, retries, delays))"
  by pat_completeness auto
termination
  by (relation "measure (\<lambda>(t, cfg, retries, lastError, delays). MAX_RETRIES - retries)") auto

declare retry_loop.simps [simp del]

subsection \<open>One request file\<close>

text \<open>How the \<open>try\<close> block of a request ends.\<close>

datatype outcome = Returned | Threw exn | Responded json

text \<open>
  Lines 193 to 221: the response record is written under the lock of the
  response file, then the completion marker; the lock is released in \<open>finally\<close>.
\<close>

definition write_response :: "json \<Rightarrow> axios_response \<Rightarrow> store \<Rightarrow> outcome \<times> store" where
  "write_response requestData response s =
     (case response of Response status headers data \<Rightarrow>
        (let responseFile = (RESPONSES_DIR, template (field requestData ''id'') @ ''.json'');
             doneFile = suffixed responseFile ''.done'';
             responseData = JObj [(''statusCode'', JNum status), (''headers'', headers),
                                  (''body'', data), (''timestamp'', JNum (int (clock s)))]
         in case lockFile responseFile s of
              (False, s1) \<Rightarrow> (Threw (Error ''Could not lock response file''), s1)
            | (True, s1) \<Rightarrow>
                (case fs_writeFile responseFile (Json responseData) s1 of
                   Inl e \<Rightarrow> (Threw e, snd (unlockFile responseFile s1))
                 | Inr s2 \<Rightarrow>
                     (case fs_writeFile doneFile (Text []) s2 of
                        Inl e \<Rightarrow> (Threw e, snd (unlockFile responseFile s2))
                      | Inr s3 \<Rightarrow> (Responded requestData, snd (unlockFile responseFile s3))))))"

text \<open>Lines 145 to 221, the \<open>try\<close> block up to the release of the response lock.\<close>

definition try_block :: "target \<Rightarrow> string \<Rightarrow> store \<Rightarrow> outcome \<times> store" where
  "try_block t file s =
     (case fs_readFile (REQUESTS_DIR, file) s of
        Inl e \<Rightarrow> (Threw e, s)
      | Inr text \<Rightarrow>
          (case JSON_parse text of
             Inl e \<Rightarrow> (Threw e, s)
           | Inr requestData \<Rightarrow>
               (case get_prop requestData ''status'' of
                  Inl e \<Rightarrow> (Threw e, s)
                | Inr status \<Rightarrow>
                    if status \<noteq> Some (JStr ''pending'') then (Returned, s)
                    else
                      (case retry_loop t (config_of requestData) 0 None [] of
                         (response, lastError, retries, delays) \<Rightarrow>
                           (let s1 = fold sleep delays s in
                            case response of
                              None \<Rightarrow>
                                (Threw (case lastError of Some e \<Rightarrow> e
                                        | None \<Rightarrow> Error ''Max retries exceeded''), s1)
                            | Some r \<Rightarrow> write_response requestData r s1)))))"

text \<open>Lines 223 to 225: the status update after a response was written.\<close>

definition update_status :: "string \<Rightarrow> json \<Rightarrow> store \<Rightarrow> exn + store" where
  "update_status file requestData s =
     (case set_prop requestData ''status'' (JStr ''completed'') of
        Inl e \<Rightarrow> Inl e
      | Inr requestData' \<Rightarrow> fs_writeFile (REQUESTS_DIR, file) (Json requestData') s)"

text \<open>
  Lines 227 to 251, the \<open>catch\<close> block: the error response, then the status
  update. The result is the exception that leaves the block, if any.
\<close>

definition catch_block :: "string \<Rightarrow> exn \<Rightarrow> store \<Rightarrow> exn option \<times> store" where
  "catch_block file error s =
     (let responseFile = (RESPONSES_DIR, replace file ''.json'' [] @ ''.json'');
          errorResponse = JObj [(''statusCode'', JNum 500), (''headers'', JObj []),
             (''body'', JObj [(''error'', JStr ''Internal Server Error''),
                              (''message'', JStr (message error))]),
             (''timestamp'', JNum (int (clock s)))]
      in case fs_writeFile responseFile (Json errorResponse) s of
           Inl e \<Rightarrow> (Some e, s)
         | Inr s1 \<Rightarrow>
             (case fs_readFile (REQUESTS_DIR, file) s1 of
                Inl e \<Rightarrow> (Some e, s1)
              | Inr text \<Rightarrow>
                  (case JSON_parse text of
                     Inl e \<Rightarrow> (Some e, s1)
                   | Inr requestData \<Rightarrow>
                       (case set_prop requestData ''status'' (JStr ''error'') of
                          Inl e \<Rightarrow> (Some e, s1)
                        | Inr requestData' \<Rightarrow>
                            (case fs_writeFile (REQUESTS_DIR, file) (Json requestData') s1 of
                               Inl e \<Rightarrow> (Some e, s1)
                             | Inr s2 \<Rightarrow> (None, s2))))))"

text \<open>
  The body of the task of one file, lines 137 to 255, in the two parts that the
  other role can come between: up to the release of the response lock, and from
  the status update on. \<open>Finished r\<close> is a task that has ended, with the exception
  \<open>r\<close> that rejects it, if any.
\<close>

datatype progress = Finished "exn option" | Pending json

definition task_begin :: "target \<Rightarrow> string \<Rightarrow> store \<Rightarrow> progress \<times> store" where
  "task_begin t file s =
     (case lockFile (REQUESTS_DIR, file) s of
        (False, s1) \<Rightarrow> (Finished None, s1)
      | (True, s1) \<Rightarrow>
          (case try_block t file s1 of
             (Returned, s2) \<Rightarrow> (Finished None, snd (unlockFile (REQUESTS_DIR, file) s2))
           | (Threw e, s2) \<Rightarrow>
               (case catch_block file e s2 of
                  (r, s3) \<Rightarrow> (Finished r, snd (unlockFile (REQUESTS_DIR, file) s3)))
           | (Responded requestData, s2) \<Rightarrow> (Pending requestData, s2)))"

definition task_end :: "string \<Rightarrow> json \<Rightarrow> store \<Rightarrow> exn option \<times> store" where
  "task_end file requestData s =
     (case update_status file requestData s of
        Inr s1 \<Rightarrow> (None, snd (unlockFile (REQUESTS_DIR, file) s1))
      | Inl e \<Rightarrow>
          (case catch_block file e s of
             (r, s2) \<Rightarrow> (r, snd (unlockFile (REQUESTS_DIR, file) s2))))"

definition process_file :: "target \<Rightarrow> string \<Rightarrow> store \<Rightarrow> exn option \<times> store" where
  "process_file t file s =
     (case task_begin t file s of
        (Finished r, s1) \<Rightarrow> (r, s1)
      | (Pending requestData, s1) \<Rightarrow> task_end file requestData s1)"

subsection \<open>The semaphore\<close>

text \<open>
  The class \<open>Semaphore\<close>. The queue holds the resolvers of the suspended
  \<open>acquire\<close> calls, each named by the task that waits on it. \<open>acquire\<close> answers
  whether the caller goes on at once; \<open>release\<close> answers which waiting task it
  resumes, if any.
\<close>

record 'a semaphore =
  maxConcurrent :: int
  current :: int
  queue :: "'a list"

definition new_Semaphore :: "int \<Rightarrow> 'a semaphore" where
  "new_Semaphore n = \<lparr>maxConcurrent = n, current = 0, queue = []\<rparr>"

definition acquire :: "'a \<Rightarrow> 'a semaphore \<Rightarrow> bool \<times> 'a semaphore" where
  "acquire task sem =
     (if current sem < maxConcurrent sem then (True, sem\<lparr>current := current sem + 1\<rparr>)
      else (False, sem\<lparr>queue := queue sem @ [task]\<rparr>))"

definition release :: "'a semaphore \<Rightarrow> 'a option \<times> 'a semaphore" where
  "release sem =
     (case queue sem of
        resolve # rest \<Rightarrow> (Some resolve, sem\<lparr>queue := rest\<rparr>)
      | [] \<Rightarrow> (None, sem\<lparr>current := current sem - 1\<rparr>))"


record 'a pool =
  sem :: "'a semaphore"
  holding :: "'a list"




subsection \<open>A tick of the discovery loop\<close>

text \<open>
  The task of one file with its slot, lines 134 to 259: \<open>acquire\<close>, the body,
  and \<open>release\<close> in \<open>finally\<close>. A task that finds no free slot stays suspended.
\<close>

datatype settled = Suspended | Settled "exn option"

definition run_task ::
  "target \<Rightarrow> string \<Rightarrow> string semaphore \<times> store \<Rightarrow> settled \<times> string semaphore \<times> store" where
  "run_task t file st =
     (case st of (sema, s) \<Rightarrow>
        (case acquire file sema of
           (False, sema1) \<Rightarrow> (Suspended, sema1, s)
         | (True, sema1) \<Rightarrow>
             (case process_file t file s of
                (r, s1) \<Rightarrow> (Settled r, snd (release sema1), s1))))"

text \<open>
  A batch, with its tasks run one after the other (they work on different
  files), and the batches in order. A rejected task rejects \<open>Promise.all\<close>; the
  exception leaves the loop over the batches and is logged, so the batches
  after it are not run.
\<close>

fun run_tasks ::
  "target \<Rightarrow> string list \<Rightarrow> string semaphore \<times> store \<Rightarrow> settled list \<times> string semaphore \<times> store" where
  "run_tasks t [] st = ([], st)"
| "run_tasks t (file # batch) st =
     (case run_task t file st of
        (r, st1) \<Rightarrow> (case run_tasks t batch st1 of (rs, st2) \<Rightarrow> (r # rs, st2)))"

fun rejected :: "settled \<Rightarrow> bool" where
  "rejected (Settled (Some e)) = True"
| "rejected r = False"

fun run_batches :: "target \<Rightarrow> string list list \<Rightarrow> store \<Rightarrow> store" where
  "run_batches t [] s = s"
| "run_batches t (batch # batches) s =
     (case run_tasks t batch (new_Semaphore MAX_CONCURRENT_REQUESTS, s) of
        (rs, sema, s1) \<Rightarrow> if list_ex rejected rs then s1 else run_batches t batches s1)"

function chunks :: "'a list \<Rightarrow> 'a list list" where
  "chunks xs = (if xs = [] then [] else take BATCH_SIZE xs # chunks (drop BATCH_SIZE xs))"
  by pat_completeness auto
termination
  by (relation "measure length") (auto simp: BATCH_SIZE_def)

declare chunks.simps [simp del]

text \<open>
  \<open>processedFiles\<close> is a \<open>Set\<close>: its elements in insertion order. Lines 103 to 122.
\<close>

definition newFiles_of :: "string list \<Rightarrow> string list \<Rightarrow> string list" where
  "newFiles_of listing processedFiles =
     filter (\<lambda>f. endsWith f ''.json'' \<and> \<not> endsWith f ''.lock'' \<and> f \<notin> set processedFiles) listing"

definition set_add :: "'a \<Rightarrow> 'a list \<Rightarrow> 'a list" where
  "set_add x xs = (if x \<in> set xs then xs else xs @ [x])"

definition remember :: "string list \<Rightarrow> string list \<Rightarrow> string list" where
  "remember newFiles processedFiles =
     (let added = fold set_add newFiles processedFiles in
      if length added > MAX_PROCESSED_FILES
      then fold removeAll (take (length added - MAX_PROCESSED_FILES) added) added
      else added)"

text \<open>\<open>processRequests\<close>: the store and the set \<open>processedFiles\<close> after one call.\<close>

definition processRequests :: "target \<Rightarrow> store \<times> string list \<Rightarrow> store \<times> string list" where
  "processRequests t st =
     (case st of (s, processedFiles) \<Rightarrow>
        (case fs_readdir REQUESTS_DIR s of
           Inl error \<Rightarrow> (s, processedFiles)
         | Inr listing \<Rightarrow>
             (let newFiles = newFiles_of listing processedFiles in
              if newFiles = [] then (s, processedFiles)
              else (run_batches t (chunks newFiles) s, remember newFiles processedFiles))))"

text \<open>The body of the interval timer: \<open>checkDirs\<close>, then \<open>processRequests\<close>.\<close>

definition checkDirs :: "store \<Rightarrow> bool" where
  "checkDirs s = (fs_access_dir REQUESTS_DIR s \<and> fs_access_dir RESPONSES_DIR s)"

definition tick :: "target \<Rightarrow> store \<times> string list \<Rightarrow> store \<times> string list" where
  "tick t st = (if checkDirs (fst st) then processRequests t st else st)"

section \<open>The submitter\<close>

text \<open>
  The request handler \<open>app.all('*', ...)\<close> of the submitter that checks the
  completion marker. Of the incoming request the handler reads the method, the
  original URL, the headers and the body; what it passes to \<open>res\<close> is the status
  code, the headers and the body of the reply.
\<close>

datatype express_req = Req string string json "json option"




definition submit :: "express_req \<Rightarrow> string \<Rightarrow> store \<Rightarrow> exn + store" where
  "submit req requestId s =
     (case req of Req method originalUrl headers body \<Rightarrow>
        fs_writeFile (REQUESTS_DIR, requestId @ ''.json'')
          (Json (object [(''id'', Some (JStr requestId)), (''method'', Some (JStr method)),
                         (''path'', Some (JStr originalUrl)), (''headers'', Some headers),
                         (''body'', body), (''timestamp'', Some (JNum (int (clock s)))),
                         (''status'', Some (JStr ''pending''))])) s)"

text \<open>One pass of the polling loop, up to the handler of its \<open>try\<close>.\<close>

datatype poll = NotReady | Found json

definition poll_once :: "string \<Rightarrow> string \<Rightarrow> store \<Rightarrow> poll \<times> store" where
  "poll_once pid requestId s =
     (let responseFile = (RESPONSES_DIR, requestId @ ''.json'') in
      case lockFile_wx pid responseFile s of
        (False, s1) \<Rightarrow> (NotReady, s1)
      | (True, s1) \<Rightarrow>
          (let doneFile = suffixed responseFile ''.done'';
               doneExists = fs_access doneFile s1;
               responseExists = fs_access responseFile s1
           in if doneExists \<and> responseExists then
                (case fs_readFile responseFile s1 of
                   Inl e \<Rightarrow> (NotReady, snd (unlockFile_wx responseFile s1))
                 | Inr responseData \<Rightarrow>
                     (case JSON_parse responseData of
                        Inl parseError \<Rightarrow> (NotReady, snd (unlockFile_wx responseFile s1))
                      | Inr response \<Rightarrow> (Found response, snd (unlockFile_wx responseFile s1))))
              else (NotReady, snd (unlockFile_wx responseFile s1))))"




definition unlink_quiet :: "path \<Rightarrow> store \<Rightarrow> store" where
  "unlink_quiet p s = (case fs_unlink p s of Inr s' \<Rightarrow> s' | Inl error \<Rightarrow> s)"

text \<open>The three \<open>unlink\<close> calls of the cleanup, each with its errors swallowed.\<close>

definition cleanup :: "string \<Rightarrow> store \<Rightarrow> store" where
  "cleanup requestId s =
     (let responseFile = (RESPONSES_DIR, requestId @ ''.json'');
          doneFile = suffixed responseFile ''.done'';
          requestFile = (REQUESTS_DIR, requestId @ ''.json'')
      in unlink_quiet requestFile (unlink_quiet doneFile (unlink_quiet responseFile s)))"





subsection \<open>The submitter without the completion marker\<close>

text \<open>
  One pass of the polling loop of \<open>local-rest-proxy/proxy.js\<close>, lines 117 to 150:
  the variable \<open>response\<close> after the pass, and the state.
\<close>

definition poll_once_unmarked :: "string \<Rightarrow> store \<Rightarrow> json option \<times> store" where
  "poll_once_unmarked requestId s =
     (let responseFile = (RESPONSES_DIR, requestId @ ''.json'');
          requestFile = (REQUESTS_DIR, requestId @ ''.json'')
      in case lockFile responseFile s of
           (False, s1) \<Rightarrow> (None, s1)
         | (True, s1) \<Rightarrow>
             (case fs_readFile responseFile s1 of
                Inl e \<Rightarrow> (None, snd (unlockFile responseFile s1))
              | Inr responseData \<Rightarrow>
                  (case JSON_parse responseData of
                     Inl e \<Rightarrow> (None, snd (unlockFile responseFile s1))
                   | Inr response \<Rightarrow>
                       (case fs_unlink responseFile s1 of
                          Inl e \<Rightarrow> (Some response, snd (unlockFile responseFile s1))
                        | Inr s2 \<Rightarrow>
                            (case fs_unlink requestFile s2 of
                               Inl e \<Rightarrow> (Some response, snd (unlockFile responseFile s2))
                             | Inr s3 \<Rightarrow> (Some response, snd (unlockFile responseFile s3)))))))"

section \<open>Predicates and examples used in the statements\<close>


text \<open>
  The status of the request record \<open>f\<close>, if the file is there and holds an
  object with a status; and the moves of a status that the worker makes.
\<close>

definition request_status :: "store \<Rightarrow> string \<Rightarrow> json option" where
  "request_status s f =
     (case map_of (files s) (REQUESTS_DIR, f) of
        Some (Json j) \<Rightarrow> field j ''status''
      | Some (Text txt) \<Rightarrow> None
      | None \<Rightarrow> None)"

definition forward :: "json option \<Rightarrow> json option \<Rightarrow> bool" where
  "forward a b =
     (b = a \<or> (a = Some (JStr ''pending'') \<and> (b = Some (JStr ''completed'') \<or> b = Some (JStr ''error''))))"

text \<open>
  No answer to read for an exchange: its completion marker or its response
  record is not in the store.
\<close>

definition unanswered :: "string \<Rightarrow> store \<Rightarrow> bool" where
  "unanswered requestId s =
     (\<not> (fileExists s (RESPONSES_DIR, requestId @ ''.json.done'')
          \<and> fileExists s (RESPONSES_DIR, requestId @ ''.json'')))"


text \<open>A pending request record as the submitter writes it, and a store holding it.\<close>

definition pending_record :: "string \<Rightarrow> json" where
  "pending_record requestId =
     JObj [(''id'', JStr requestId), (''method'', JStr ''GET''), (''path'', JStr ''/widgets/42''),
           (''headers'', JObj []), (''body'', JNull), (''timestamp'', JNum 0),
           (''status'', JStr ''pending'')]"

definition store_with :: "(path \<times> fdata) list \<Rightarrow> store" where
  "store_with fs = \<lparr>dirs = [RESPONSES_DIR, REQUESTS_DIR], files = fs, denied = [], clock = 0\<rparr>"

text \<open>A target that refuses every connection, and one that answers every call.\<close>

definition refusing :: target where
  "refusing = (\<lambda>k cfg. Inl (Error (''connect ECONNREFUSED, attempt '' @ show_nat (k + 1))))"

definition answering :: "axios_response \<Rightarrow> target" where
  "answering response = (\<lambda>k cfg. Inr response)"

text \<open>
  The store with the pending record of \<open>r1\<close> in which the operating system
  refuses to write the lock marker of that record.
\<close>

definition locked_store :: store where
  "locked_store = \<lparr>dirs = [RESPONSES_DIR, REQUESTS_DIR],
     files = [((REQUESTS_DIR, ''r1.json''), Json (pending_record ''r1''))],
     denied = [(REQUESTS_DIR, ''r1.json.lock'')], clock = 0\<rparr>"






section \<open>Basic facts about the store operations\<close>

lemmas fs_defs = fs_writeFile_def fs_writeFile_wx_def fs_readFile_def fs_unlink_def
  fs_access_def fs_mkdir_def fs_rm_def fileExists_def suffixed_def

lemma JSON_parse_Inr [simp]: "(JSON_parse d = Inr j) = (d = Json j)"
  by (cases d) auto

lemma JSON_parse_Inl [simp]: "(JSON_parse d = Inl e) = (e = SyntaxError \<and> (\<exists>txt. d = Text txt))"
  by (cases d) auto

lemma map_of_filter_fst:
  "map_of (filter (\<lambda>e. P (fst e)) xs) k = (if P k then map_of xs k else None)"
  by (induction xs) auto

lemma unlink_quiet_absent: "\<not> fileExists s q \<Longrightarrow> unlink_quiet q s = s"
  by (simp add: unlink_quiet_def fs_unlink_def)

lemma files_unlink_quiet:
  "map_of (files (unlink_quiet q s)) r = (if r = q then None else map_of (files s) r)"
  by (simp add: unlink_quiet_def fs_unlink_def fileExists_def delete_conv')

lemma unlink_quiet_frame:
  "dirs (unlink_quiet q s) = dirs s \<and> denied (unlink_quiet q s) = denied s
   \<and> clock (unlink_quiet q s) = clock s"
  by (simp add: unlink_quiet_def fs_unlink_def)

section \<open>The lock primitive\<close>

text \<open>The lock of the submitter that checks the marker is exclusive.\<close>

lemma lockFile_wx_exclusive:
  "fst (lockFile_wx pid p s) =
     (\<not> fileExists s (suffixed p ''.lock'') \<and> suffixed p ''.lock'' \<notin> set (denied s))"
  by (simp add: lockFile_wx_def fs_defs Let_def)

lemma lockFile_wx_creates:
  "fst (lockFile_wx pid p s) \<Longrightarrow>
     map_of (files (snd (lockFile_wx pid p s))) (suffixed p ''.lock'') = Some (Text pid)"
  by (simp add: lockFile_wx_def fs_defs Let_def update_conv' split: if_splits)

lemma lockFile_wx_refused:
  "\<not> fst (lockFile_wx pid p s) \<Longrightarrow> files (snd (lockFile_wx pid p s)) = files s"
  by (simp add: lockFile_wx_def fs_defs Let_def split: if_splits)

text \<open>
  The lock of the worker (and of the submitter without the marker) answers true
  wherever the marker can be written, whether or not it is there already.
\<close>

lemma lockFile_true_when_writable:
  "fst p \<in> set (dirs s) \<Longrightarrow> suffixed p ''.lock'' \<notin> set (denied s) \<Longrightarrow> fst (lockFile p s)"
  by (simp add: lockFile_def fs_defs)

text \<open>
  C1. The claim asks that the lock primitive answer true only when no marker
  existed. The worker's \<open>lockFile\<close> does not: on the request record \<open>r1.json\<close>
  whose marker \<open>r1.json.lock\<close> another holder has already created (it holds
  \<open>4711\<close>), the call answers true and overwrites the marker with the empty
  string; a second call on the state it leaves answers true again.
\<close>

theorem lockFile_not_exclusive:
  "lockFile (REQUESTS_DIR, ''r1.json'')
     (store_with [((REQUESTS_DIR, ''r1.json''), Json (pending_record ''r1'')),
                  ((REQUESTS_DIR, ''r1.json.lock''), Text ''4711'')])
   = (True, store_with [((REQUESTS_DIR, ''r1.json''), Json (pending_record ''r1'')),
                        ((REQUESTS_DIR, ''r1.json.lock''), Text [])])
   \<and> lockFile (REQUESTS_DIR, ''r1.json'')
       (store_with [((REQUESTS_DIR, ''r1.json''), Json (pending_record ''r1'')),
                    ((REQUESTS_DIR, ''r1.json.lock''), Text [])])
   = (True, store_with [((REQUESTS_DIR, ''r1.json''), Json (pending_record ''r1'')),
                        ((REQUESTS_DIR, ''r1.json.lock''), Text [])])"
  by (simp add: lockFile_def fs_defs store_with_def)

section \<open>The completion marker\<close>

text \<open>
  The submitter that checks the marker reads a response record only when the
  marker is there, and what it returns is the content of the record.
\<close>

lemma poll_once_reads_marked_only:
  "fst (poll_once pid requestId s) = Found response \<Longrightarrow>
     fileExists s (RESPONSES_DIR, requestId @ ''.json.done'')
     \<and> map_of (files s) (RESPONSES_DIR, requestId @ ''.json'') = Some (Json response)"
  by (auto simp: poll_once_def lockFile_wx_def unlockFile_wx_def fs_defs Let_def update_conv'
      split: if_splits option.splits fdata.splits sum.splits)

text \<open>
  C2. The claim asks that the waiter never read a response record whose marker
  it has not seen. The polling loop of \<open>local-rest-proxy/proxy.js\<close> does: with the
  response record of \<open>r1\<close> in the store and no marker \<open>r1.json.done\<close>, one pass
  reads the record, takes it as the response and deletes both records.
\<close>

theorem unmarked_poll_reads_without_marker:
  "fileExists
     (store_with [((REQUESTS_DIR, ''r1.json''), Json (pending_record ''r1'')),
                  ((RESPONSES_DIR, ''r1.json''), Json (JObj [(''statusCode'', JNum 200)]))])
     (RESPONSES_DIR, ''r1.json.done'') = False
   \<and> poll_once_unmarked ''r1''
       (store_with [((REQUESTS_DIR, ''r1.json''), Json (pending_record ''r1'')),
                    ((RESPONSES_DIR, ''r1.json''), Json (JObj [(''statusCode'', JNum 200)]))])
     = (Some (JObj [(''statusCode'', JNum 200)]), store_with [])"
  by (simp add: poll_once_unmarked_def lockFile_def unlockFile_def fs_defs Let_def store_with_def)

section \<open>Release and cleanup\<close>

lemma files_cleanup:
  "map_of (files (cleanup requestId s)) r =
     (if r = (RESPONSES_DIR, requestId @ ''.json'') \<or> r = (RESPONSES_DIR, requestId @ ''.json.done'')
         \<or> r = (REQUESTS_DIR, requestId @ ''.json'')
      then None else map_of (files s) r)"
  by (simp add: cleanup_def Let_def files_unlink_quiet suffixed_def)

lemma cleanup_idem: "cleanup requestId (cleanup requestId s) = cleanup requestId s"
proof -
  have "\<not> fileExists (cleanup requestId s) (RESPONSES_DIR, requestId @ ''.json'')"
    "\<not> fileExists (cleanup requestId s) (RESPONSES_DIR, requestId @ ''.json.done'')"
    "\<not> fileExists (cleanup requestId s) (REQUESTS_DIR, requestId @ ''.json'')"
    by (simp_all add: fileExists_def files_cleanup)
  then show ?thesis
    by (subst (1) cleanup_def) (simp add: Let_def suffixed_def unlink_quiet_absent)
qed

text \<open>
  C8. Releasing a lock whose marker \<open>p.lock\<close> is absent succeeds and changes
  nothing (the submitter's \<open>unlockFile\<close> answers true; the worker's swallows
  the error and leaves the store as it is). Deleting a record \<open>q\<close> that is
  already gone, as the cleanup does with its errors swallowed, changes nothing;
  a second cleanup changes nothing; and the cleanup of an exchange leaves every
  file but the response record, the marker and the request record of that
  exchange with the content it had, whichever of the three were there.
\<close>

theorem release_and_cleanup_tolerate_absent_files:
  assumes "\<not> fileExists s (suffixed p ''.lock'')" and "\<not> fileExists s q"
  shows "unlockFile_wx p s = (True, s)
    \<and> snd (unlockFile p s) = s
    \<and> unlink_quiet q s = s
    \<and> cleanup requestId (cleanup requestId s) = cleanup requestId s
    \<and> map_of (files (cleanup requestId s)) r =
        (if r = (RESPONSES_DIR, requestId @ ''.json'') \<or> r = (RESPONSES_DIR, requestId @ ''.json.done'')
            \<or> r = (REQUESTS_DIR, requestId @ ''.json'')
         then None else map_of (files s) r)
    \<and> dirs (cleanup requestId s) = dirs s"
proof -
  have "dirs (cleanup requestId s) = dirs s"
    by (simp add: cleanup_def Let_def unlink_quiet_frame)
  with assms show ?thesis
    by (simp add: unlockFile_wx_def unlockFile_def fs_unlink_def unlink_quiet_absent cleanup_idem
        files_cleanup)
qed

text \<open>
  The witness: the response record of \<open>r1\<close> is still there, its marker and its
  request record are already deleted, and the record of \<open>r2\<close> is another
  exchange's. The cleanup of \<open>r1\<close> leaves the record of \<open>r2\<close> as it was.
\<close>

theorem release_and_cleanup_tolerate_absent_files_witness:
  "\<not> fileExists (store_with [((RESPONSES_DIR, ''r1.json''), Json JNull),
                             ((REQUESTS_DIR, ''r2.json''), Json (pending_record ''r2''))])
       (suffixed (RESPONSES_DIR, ''r1.json'') ''.lock'')
   \<and> \<not> fileExists (store_with [((RESPONSES_DIR, ''r1.json''), Json JNull),
                               ((REQUESTS_DIR, ''r2.json''), Json (pending_record ''r2''))])
         (REQUESTS_DIR, ''r1.json'')
   \<and> unlockFile_wx (RESPONSES_DIR, ''r1.json'')
       (store_with [((RESPONSES_DIR, ''r1.json''), Json JNull),
                    ((REQUESTS_DIR, ''r2.json''), Json (pending_record ''r2''))])
     = (True, store_with [((RESPONSES_DIR, ''r1.json''), Json JNull),
                          ((REQUESTS_DIR, ''r2.json''), Json (pending_record ''r2''))])
   \<and> map_of (files (cleanup ''r1''
        (store_with [((RESPONSES_DIR, ''r1.json''), Json JNull),
                     ((REQUESTS_DIR, ''r2.json''), Json (pending_record ''r2''))])))
       (REQUESTS_DIR, ''r2.json'') = Some (Json (pending_record ''r2''))"
proof -
  let ?s = "store_with [((RESPONSES_DIR, ''r1.json''), Json JNull),
                        ((REQUESTS_DIR, ''r2.json''), Json (pending_record ''r2''))]"
  have 1: "\<not> fileExists ?s (suffixed (RESPONSES_DIR, ''r1.json'') ''.lock'')"
    by (simp add: fileExists_def suffixed_def store_with_def)
  have 2: "\<not> fileExists ?s (REQUESTS_DIR, ''r1.json'')"
    by (simp add: fileExists_def store_with_def)
  from release_and_cleanup_tolerate_absent_files [OF 1 2, of "''r1''" "(REQUESTS_DIR, ''r2.json'')"]
  show ?thesis
    using 1 2 by (simp add: store_with_def)
qed

section \<open>The semaphore\<close>








section \<open>Retries\<close>





lemma field_JObj [simp]: "field (JObj kvs) k = map_of kvs k"
  by (simp add: field_def)




section \<open>The status of a request record\<close>

lemma fold_sleep [simp]:
  "files (fold sleep ds s) = files s" "dirs (fold sleep ds s) = dirs s"
  "denied (fold sleep ds s) = denied s" "clock (fold sleep ds s) = clock s + sum_list ds"
  by (induction ds arbitrary: s) (auto simp: sleep_def)

lemma files_lockFile:
  "map_of (files (snd (lockFile p s))) q =
     (if q = suffixed p ''.lock'' \<and> fst (lockFile p s) then Some (Text []) else map_of (files s) q)"
  by (simp add: lockFile_def fs_writeFile_def update_conv')

lemma frame_lockFile [simp]:
  "dirs (snd (lockFile p s)) = dirs s" "denied (snd (lockFile p s)) = denied s"
  "clock (snd (lockFile p s)) = clock s"
  by (simp_all add: lockFile_def fs_writeFile_def)

lemma files_unlockFile:
  "map_of (files (snd (unlockFile p s))) q =
     (if q = suffixed p ''.lock'' then None else map_of (files s) q)"
  by (simp add: unlockFile_def fs_unlink_def fileExists_def delete_conv')

lemma frame_unlockFile [simp]:
  "dirs (snd (unlockFile p s)) = dirs s" "denied (snd (unlockFile p s)) = denied s"
  "clock (snd (unlockFile p s)) = clock s"
  by (simp_all add: unlockFile_def fs_unlink_def)

lemma files_writeFile:
  "fs_writeFile p d s = Inr s' \<Longrightarrow> s' = s\<lparr>files := AList.update p d (files s)\<rparr>"
  by (auto simp: fs_writeFile_def split: if_splits)

lemma requests_write_response:
  "map_of (files (snd (write_response rd resp s))) (REQUESTS_DIR, g) = map_of (files s) (REQUESTS_DIR, g)"
  by (cases resp)
     (auto simp: write_response_def Let_def split_beta files_lockFile files_unlockFile suffixed_def
       update_conv' dest!: files_writeFile split: sum.splits bool.splits)



lemma requests_try_block:
  "map_of (files (snd (try_block t f s))) (REQUESTS_DIR, g) = map_of (files s) (REQUESTS_DIR, g)"
  by (auto simp: try_block_def Let_def split_beta requests_write_response
      split: sum.splits option.splits)



lemma requests_catch_block_other:
  "g \<noteq> f \<Longrightarrow>
     map_of (files (snd (catch_block f e s))) (REQUESTS_DIR, g) = map_of (files s) (REQUESTS_DIR, g)"
  by (auto simp: catch_block_def Let_def update_conv' dest!: files_writeFile split: sum.splits)


lemma update_status_Inr:
  "update_status f rd s = Inr s' \<Longrightarrow>
     \<exists>rd'. set_prop rd ''status'' (JStr ''completed'') = Inr rd'
       \<and> s' = s\<lparr>files := AList.update (REQUESTS_DIR, f) (Json rd') (files s)\<rparr>"
  by (auto simp: update_status_def dest!: files_writeFile split: sum.splits)




lemma requests_unlockFile_own:
  "map_of (files (snd (unlockFile (REQUESTS_DIR, f) s))) (REQUESTS_DIR, g) =
     (if g = f @ ''.lock'' then None else map_of (files s) (REQUESTS_DIR, g))"
  by (simp add: files_unlockFile suffixed_def)

lemma requests_lockFile_own:
  "g \<noteq> f @ ''.lock'' \<Longrightarrow>
     map_of (files (snd (lockFile (REQUESTS_DIR, f) s))) (REQUESTS_DIR, g) = map_of (files s) (REQUESTS_DIR, g)"
  by (simp add: files_lockFile suffixed_def)




lemma forward_refl [simp]: "forward a a"
  by (simp add: forward_def)


lemma requests_task_end_other:
  "g \<noteq> f \<Longrightarrow> g \<noteq> f @ ''.lock'' \<Longrightarrow>
     map_of (files (snd (task_end f rd s))) (REQUESTS_DIR, g) = map_of (files s) (REQUESTS_DIR, g)"
  by (auto simp: task_end_def split_beta requests_unlockFile_own requests_catch_block_other
      update_conv' dest!: update_status_Inr split: sum.splits)

lemma requests_process_file_other:
  assumes "g \<noteq> f" "g \<noteq> f @ ''.lock''"
  shows "map_of (files (snd (process_file t f s))) (REQUESTS_DIR, g) = map_of (files s) (REQUESTS_DIR, g)"
proof -
  let ?p = "(REQUESTS_DIR, f)"
  let ?s1 = "snd (lockFile ?p s)"
  let ?s2 = "snd (try_block t f ?s1)"
  have r2: "map_of (files ?s2) (REQUESTS_DIR, g) = map_of (files s) (REQUESTS_DIR, g)"
    using assms by (simp add: requests_try_block requests_lockFile_own)
  show ?thesis
  proof (cases "fst (lockFile ?p s)")
    case False
    with assms show ?thesis
      by (simp add: process_file_def task_begin_def split_beta requests_lockFile_own)
  next
    case True
    show ?thesis
    proof (cases "fst (try_block t f ?s1)")
      case Returned
      with True assms r2 show ?thesis
        by (simp add: process_file_def task_begin_def split_beta requests_unlockFile_own)
    next
      case (Threw e)
      with True assms r2 show ?thesis
        by (simp add: process_file_def task_begin_def split_beta requests_unlockFile_own
            requests_catch_block_other)
    next
      case (Responded rd)
      with True assms r2 show ?thesis
        by (simp add: process_file_def task_begin_def split_beta requests_task_end_other)
    qed
  qed
qed

lemma endsWith_append [simp]: "endsWith (f @ ext) ext"
  by (simp add: endsWith_def)









section \<open>The marker and the writes of the worker\<close>

lemma json_not_done [simp]: "(a @ ''.json'' = b @ ''.done'') = False"
proof
  assume "a @ ''.json'' = b @ ''.done''"
  then have "last (a @ ''.json'') = last (b @ ''.done'')"
    by simp
  then show False
    by simp
qed simp

text \<open>
  On the worker's side the marker of a response is written only by
  \<open>write_response\<close>, after the record: when the marker is new, the record
  holds the whole response. The \<open>catch\<close> block writes its error response
  without any marker.
\<close>

lemma marker_written_after_record:
  assumes "\<not> fileExists s (RESPONSES_DIR, template (field rd ''id'') @ ''.json.done'')"
    and "fileExists (snd (write_response rd (Response code hs payload) s))
           (RESPONSES_DIR, template (field rd ''id'') @ ''.json.done'')"
  shows "map_of (files (snd (write_response rd (Response code hs payload) s)))
           (RESPONSES_DIR, template (field rd ''id'') @ ''.json'')
         = Some (Json (JObj [(''statusCode'', JNum code), (''headers'', hs), (''body'', payload),
                             (''timestamp'', JNum (int (clock s)))]))"
  using assms
  by (auto simp: write_response_def Let_def split_beta files_lockFile files_unlockFile suffixed_def
      fileExists_def update_conv' dest!: files_writeFile split: sum.splits bool.splits if_splits)

lemma catch_block_writes_no_marker:
  "fileExists (snd (catch_block f e s)) (RESPONSES_DIR, n @ ''.done'')
     = fileExists s (RESPONSES_DIR, n @ ''.done'')"
  by (auto simp: catch_block_def Let_def fileExists_def update_conv'
      dest!: files_writeFile split: sum.splits)

section \<open>The recently-seen set\<close>

lemma newFiles_gate: "f \<in> set seen \<Longrightarrow> f \<notin> set (newFiles_of listing seen)"
  by (simp add: newFiles_of_def)

lemma newFiles_not_lock: "f \<in> set (newFiles_of listing seen) \<Longrightarrow> \<not> endsWith f ''.lock''"
  by (simp add: newFiles_of_def)

lemma set_fold_set_add: "set (fold set_add xs seen) = set xs \<union> set seen"
  by (induction xs arbitrary: seen) (auto simp: set_add_def)

lemma remember_keeps:
  "length (fold set_add new seen) \<le> MAX_PROCESSED_FILES \<Longrightarrow>
     set (remember new seen) = set new \<union> set seen"
  by (simp add: remember_def Let_def set_fold_set_add)

lemma chunks_subset: "b \<in> set (chunks xs) \<Longrightarrow> set b \<subseteq> set xs"
proof (induction xs arbitrary: b rule: chunks.induct)
  case (1 xs)
  show ?case
  proof (cases "xs = []")
    case True
    with "1.prems" show ?thesis
      by (simp add: chunks.simps)
  next
    case False
    with "1.prems" have "b = take BATCH_SIZE xs \<or> b \<in> set (chunks (drop BATCH_SIZE xs))"
      by (subst (asm) chunks.simps) simp
    then show ?thesis
    proof
      assume "b = take BATCH_SIZE xs"
      then show ?thesis
        by (simp add: set_take_subset)
    next
      assume "b \<in> set (chunks (drop BATCH_SIZE xs))"
      from "1.IH" [OF False this] show ?thesis
        using set_drop_subset [of BATCH_SIZE xs] by blast
    qed
  qed
qed

lemma run_tasks_untouched:
  assumes "g \<notin> set batch" "\<not> endsWith g ''.lock''"
  shows "map_of (files (snd (snd (run_tasks t batch st)))) (REQUESTS_DIR, g)
     = map_of (files (snd st)) (REQUESTS_DIR, g)"
  using assms(1)
proof (induction batch arbitrary: st)
  case Nil
  then show ?case by simp
next
  case (Cons f batch)
  obtain sema s where st: "st = (sema, s)"
    by (cases st)
  from Cons.prems assms(2) have ne: "g \<noteq> f" "g \<noteq> f @ ''.lock''"
    by auto
  have 1: "map_of (files (snd (snd (run_task t f (sema, s))))) (REQUESTS_DIR, g)
      = map_of (files s) (REQUESTS_DIR, g)"
    using requests_process_file_other [OF ne]
    by (simp add: run_task_def split_beta split: bool.splits)
  from Cons.prems have "g \<notin> set batch"
    by simp
  from Cons.IH [OF this, of "snd (run_task t f (sema, s))"] 1 st show ?case
    by (simp add: split_beta)
qed

lemma run_batches_untouched:
  assumes "\<not> endsWith g ''.lock''"
  shows "\<forall>b\<in>set batches. g \<notin> set b \<Longrightarrow>
     map_of (files (run_batches t batches s)) (REQUESTS_DIR, g) = map_of (files s) (REQUESTS_DIR, g)"
proof (induction batches arbitrary: s)
  case Nil
  then show ?case by simp
next
  case (Cons batch batches)
  let ?s1 = "snd (snd (run_tasks t batch (new_Semaphore MAX_CONCURRENT_REQUESTS, s)))"
  from Cons.prems have "g \<notin> set batch"
    by simp
  from run_tasks_untouched [OF this assms, of t "(new_Semaphore MAX_CONCURRENT_REQUESTS, s)"]
  have 1: "map_of (files ?s1) (REQUESTS_DIR, g) = map_of (files s) (REQUESTS_DIR, g)"
    by simp
  from Cons.prems have "\<forall>b\<in>set batches. g \<notin> set b"
    by simp
  from Cons.IH [OF this, of ?s1] 1 show ?case
    by (simp add: split_beta)
qed

lemma tick_skips_seen:
  assumes "f \<in> set seen" "\<not> endsWith f ''.lock''"
  shows "map_of (files (fst (tick t (s, seen)))) (REQUESTS_DIR, f) = map_of (files s) (REQUESTS_DIR, f)"
proof -
  have "\<forall>b\<in>set (chunks (newFiles_of listing seen)). f \<notin> set b" for listing
    using chunks_subset newFiles_gate [OF assms(1)] by blast
  from run_batches_untouched [OF assms(2) this] show ?thesis
    by (simp add: tick_def processRequests_def split_beta Let_def split: sum.splits)
qed

lemma tick_remembers:
  assumes "checkDirs s" "fs_readdir REQUESTS_DIR s = Inr listing"
  shows "snd (tick t (s, seen)) =
     (if newFiles_of listing seen = [] then seen else remember (newFiles_of listing seen) seen)"
  using assms by (simp add: tick_def processRequests_def Let_def)

text \<open>
  C6, as the code has it. A request record that a tick lists as a candidate is
  put into \<open>processedFiles\<close> before its lock is attempted. As long as the set is
  not trimmed (it holds at most \<open>MAX_PROCESSED_FILES\<close> names after the tick) the
  name is in the set after the tick, whatever the lock attempt and the task
  did; no later listing makes it a candidate again; and a later tick, on any
  store and with any target, leaves the record as it finds it.
\<close>

theorem listed_record_is_not_retried:
  assumes "checkDirs s" and "fs_readdir REQUESTS_DIR s = Inr listing"
    and "f \<in> set (newFiles_of listing seen)"
    and "length (fold set_add (newFiles_of listing seen) seen) \<le> MAX_PROCESSED_FILES"
  shows "f \<in> set (snd (tick t (s, seen)))
    \<and> f \<notin> set (newFiles_of listing' (snd (tick t (s, seen))))
    \<and> map_of (files (fst (tick t' (s', snd (tick t (s, seen)))))) (REQUESTS_DIR, f)
        = map_of (files s') (REQUESTS_DIR, f)"
proof -
  from assms(3) have ne: "newFiles_of listing seen \<noteq> []"
    by auto
  with tick_remembers [OF assms(1,2), of t seen]
  have "snd (tick t (s, seen)) = remember (newFiles_of listing seen) seen"
    by simp
  with remember_keeps [OF assms(4)] assms(3) have 1: "f \<in> set (snd (tick t (s, seen)))"
    by simp
  from newFiles_not_lock [OF assms(3)] have 2: "\<not> endsWith f ''.lock''" .
  from 1 newFiles_gate [OF 1] tick_skips_seen [OF 1 2] show ?thesis
    by simp
qed

text \<open>
  The witness: the first tick on the store whose lock marker cannot be written
  lists \<open>r1.json\<close>; a later tick on the store without that obstacle leaves the
  pending record untouched.
\<close>

theorem listed_record_is_not_retried_witness:
  "checkDirs locked_store
   \<and> fs_readdir REQUESTS_DIR locked_store = Inr [''r1.json'']
   \<and> ''r1.json'' \<in> set (newFiles_of [''r1.json''] [])
   \<and> length (fold set_add (newFiles_of [''r1.json''] []) []) \<le> MAX_PROCESSED_FILES
   \<and> ''r1.json'' \<in> set (snd (tick refusing (locked_store, [])))
   \<and> map_of (files (fst (tick (answering (Response 200 (JObj []) JNull))
        (store_with [((REQUESTS_DIR, ''r1.json''), Json (pending_record ''r1''))],
         snd (tick refusing (locked_store, [])))))) (REQUESTS_DIR, ''r1.json'')
     = Some (Json (pending_record ''r1''))"
proof -
  have 1: "checkDirs locked_store"
    by (simp add: checkDirs_def fs_access_dir_def locked_store_def)
  have 2: "fs_readdir REQUESTS_DIR locked_store = Inr [''r1.json'']"
    by (simp add: fs_readdir_def locked_store_def)
  have 3: "''r1.json'' \<in> set (newFiles_of [''r1.json''] [])"
    by (simp add: newFiles_of_def endsWith_def)
  have 4: "length (fold set_add (newFiles_of [''r1.json''] []) []) \<le> MAX_PROCESSED_FILES"
    by (simp add: newFiles_of_def endsWith_def set_add_def MAX_PROCESSED_FILES_def)
  have 5: "map_of (files (store_with [((REQUESTS_DIR, ''r1.json''), Json (pending_record ''r1''))]))
      (REQUESTS_DIR, ''r1.json'') = Some (Json (pending_record ''r1''))"
    by (simp add: store_with_def)
  from listed_record_is_not_retried
    [OF 1 2 3 4, where t = refusing and t' = "answering (Response 200 (JObj []) JNull)"
       and s' = "store_with [((REQUESTS_DIR, ''r1.json''), Json (pending_record ''r1''))]"
       and listing' = "[''r1.json'']"]
    1 2 3 4 5
  show ?thesis
    by simp
qed

text \<open>
  C6, as the claim states it, fails. The tick that lists the pending record
  \<open>r1.json\<close> and cannot write its lock marker leaves the store as it is and
  remembers the name. On the later tick the record is still there and still
  pending and the marker could be written, yet with the name in the set the
  tick does nothing; the same tick with an empty set dispatches the record and
  completes it. So the record is not a candidate again, and whether it is
  dispatched depends on the set.
\<close>

theorem pending_record_not_retried:
  "tick (answering (Response 200 (JObj []) JNull)) (locked_store, []) = (locked_store, [''r1.json''])
   \<and> request_status (store_with [((REQUESTS_DIR, ''r1.json''), Json (pending_record ''r1''))]) ''r1.json''
       = Some (JStr ''pending'')
   \<and> tick (answering (Response 200 (JObj []) JNull))
       (store_with [((REQUESTS_DIR, ''r1.json''), Json (pending_record ''r1''))], [''r1.json''])
     = (store_with [((REQUESTS_DIR, ''r1.json''), Json (pending_record ''r1''))], [''r1.json''])
   \<and> request_status (fst (tick (answering (Response 200 (JObj []) JNull))
       (store_with [((REQUESTS_DIR, ''r1.json''), Json (pending_record ''r1''))], []))) ''r1.json''
     = Some (JStr ''completed'')"
  by (simp add: tick_def checkDirs_def fs_access_dir_def processRequests_def fs_readdir_def
      newFiles_of_def endsWith_def chunks.simps BATCH_SIZE_def remember_def set_add_def
      MAX_PROCESSED_FILES_def run_task_def acquire_def release_def new_Semaphore_def
      MAX_CONCURRENT_REQUESTS_def process_file_def task_begin_def task_end_def try_block_def
      write_response_def update_status_def retry_loop.simps MAX_RETRIES_def answering_def
      lockFile_def unlockFile_def fs_defs Let_def locked_store_def store_with_def
      pending_record_def request_status_def config_of_def)

section \<open>The round trip\<close>






lemma endsWith_json_lock [simp]: "endsWith (r @ ''.json'') ''.lock'' = False"
  by (simp add: endsWith_def)













section \<open>The timeout\<close>


lemma sleep_unanswered [simp]: "unanswered requestId (sleep ms s) = unanswered requestId s"
  by (simp add: unanswered_def sleep_def fileExists_def)

lemma clock_sleep [simp]: "clock (sleep ms s) = clock s + ms"
  by (simp add: sleep_def)




lemma submit_clock: "submit req requestId s = Inr s1 \<Longrightarrow> clock s1 = clock s"
  by (cases req) (auto simp: submit_def dest!: files_writeFile)






section \<open>Properties of start-up\<close>

lemma files_initializeDirs:
  "files (initializeDirs s) =
     filter (\<lambda>e. fst (fst e) \<noteq> REQUESTS_DIR \<and> fst (fst e) \<noteq> RESPONSES_DIR) (files s)"
  by (simp add: initializeDirs_def fs_mkdir_def fs_rm_def conj_commute)

lemma dirs_initializeDirs:
  "REQUESTS_DIR \<in> set (dirs (initializeDirs s)) \<and> RESPONSES_DIR \<in> set (dirs (initializeDirs s))"
  by (simp add: initializeDirs_def fs_mkdir_def fs_rm_def)

text \<open>
  C10. Whatever the shared folder holds when a role starts, \<open>initializeDirs\<close>
  leaves both directories in existence and holding no file at all: no request
  record, response record, lock marker or completion marker survives, whatever
  its name and content (so a pending exchange is destroyed, not resumed).
  Files outside the two directories keep their content.
\<close>

theorem initializeDirs_wipes_both_namespaces:
  "fs_readdir REQUESTS_DIR (initializeDirs s) = Inr []
   \<and> fs_readdir RESPONSES_DIR (initializeDirs s) = Inr []
   \<and> fileExists (initializeDirs s) (REQUESTS_DIR, name) = False
   \<and> fileExists (initializeDirs s) (RESPONSES_DIR, name) = False
   \<and> fs_readFile (OTHER_DIR d, name) (initializeDirs s) = fs_readFile (OTHER_DIR d, name) s"
proof -
  have m: "map_of (files (initializeDirs s)) k =
      (if fst k \<noteq> REQUESTS_DIR \<and> fst k \<noteq> RESPONSES_DIR then map_of (files s) k else None)" for k
    unfolding files_initializeDirs by (rule map_of_filter_fst)
  have l: "filter (\<lambda>e. fst (fst e) = d') (files (initializeDirs s)) = []"
    if "d' = REQUESTS_DIR \<or> d' = RESPONSES_DIR" for d'
    using that unfolding files_initializeDirs by (auto simp: filter_empty_conv)
  show ?thesis
    using dirs_initializeDirs [of s]
    by (simp add: fs_readdir_def fileExists_def fs_readFile_def m l)
qed

end
